theory Spec2Isabelle
  imports Complex_Main "HOL-Library.Multiset"
begin

section \<open>Time, errors and fetched data\<close>

text \<open>
  A \<open>pd.Timestamp\<close> is an instant: its nanoseconds since the epoch, in UTC. A
  \<open>pd.Timedelta\<close> (and a \<open>datetime.timedelta\<close>) is a number of nanoseconds. A naive
  \<open>datetime\<close>, as the command line hands a date over, is a wall-clock reading, again in
  nanoseconds. The wall clock of a zone reads the instant plus the zone's offset from UTC.
\<close>

type_synonym timestamp = int
type_synonym timedelta = int
type_synonym naive_datetime = int

definition hours :: "int \<Rightarrow> timedelta" where
  "hours n = n * 3600000000000"

definition days :: "int \<Rightarrow> timedelta" where
  "days n = n * 86400000000000"

text \<open>
  The exceptions of \<open>utils.py\<close> and of the library calls it makes. \<open>click.Abort\<close> carries no
  message of its own; the model attaches the line that \<open>click.echo\<close> / \<open>click.secho\<close> printed
  just before the raise.
\<close>

datatype error =
    Abort string
  | ValueError string
  | ZeroDivisionError
  | IndexError
  | UnknownTimeZoneError string

text \<open>
  One sample of a series: its timestamp and its value, \<open>None\<close> standing for NaN (a missing
  value). Values are real numbers; the rounding of floating-point arithmetic is outside
  the model. The fetched data is a \<open>pd.Series\<close> (the offset from UTC of its index, taken
  as fixed over the series, and its samples) or a \<open>pd.DataFrame\<close>, of which only the shape (rows, columns) matters here.
\<close>

type_synonym sample = "timestamp \<times> real option"

record series =
  tz :: int
  samples :: "sample list"

datatype data = Series series | DataFrame nat nat

fun len :: "data \<Rightarrow> nat" where
  "len (Series s) = length (samples s)"
| "len (DataFrame n_rows n_cols) = n_rows"


subsection \<open>Rendering integers, as an f-string does\<close>





section \<open>The completeness checks\<close>





section \<open>Resolving the date range\<close>

text \<open>
  A zone of the time zone database, as pytz serves it. Its offset from UTC depends on the
  date: \<open>utcoffset\<close> is the offset in force at an instant, which \<open>datetime.now(tz)\<close>
  attaches to the time it reads; \<open>wall_offset\<close> is the offset that localizing a naive
  wall-clock reading picks, which is what \<open>pd.Timestamp(d, tzinfo=tz)\<close> does.
  \<open>pytz.timezone(name)\<close> looks the zone up in the database, here a map from zone names to
  zones, and raises for a name it does not know.
\<close>

record zone =
  utcoffset :: "timestamp \<Rightarrow> int"
  wall_offset :: "naive_datetime \<Rightarrow> int"

definition pytz_timezone :: "(string \<rightharpoonup> zone) \<Rightarrow> string \<Rightarrow> error + zone" where
  "pytz_timezone tzdb name =
     (case tzdb name of None \<Rightarrow> Inl (UnknownTimeZoneError name) | Some z \<Rightarrow> Inr z)"

text \<open>
  An aware \<open>datetime\<close>: a wall-clock reading and the UTC offset of its \<open>tzinfo\<close>. With pytz
  that offset is fixed once the datetime exists: \<open>replace\<close> and the addition of a
  \<open>timedelta\<close> change the wall-clock reading and keep the offset, whatever the zone's
  offset at the new reading is. \<open>datetime.now(tz)\<close> reads the clock; the instant it returns
  is the parameter \<open>clock\<close>.
\<close>

record aware_datetime =
  wall :: naive_datetime
  offset :: int

definition datetime_now :: "zone \<Rightarrow> timestamp \<Rightarrow> aware_datetime" where
  "datetime_now z clock = \<lparr>wall = clock + utcoffset z clock, offset = utcoffset z clock\<rparr>"

text \<open>\<open>now.replace(hour=0, minute=0, second=0, microsecond=0)\<close>.\<close>

definition replace_midnight :: "aware_datetime \<Rightarrow> aware_datetime" where
  "replace_midnight now = now\<lparr>wall := wall now - wall now mod days 1\<rparr>"

text \<open>\<open>dt + timedelta(...)\<close> on an aware datetime.\<close>

definition plus_timedelta :: "aware_datetime \<Rightarrow> timedelta \<Rightarrow> aware_datetime" where
  "plus_timedelta dt delta = dt\<lparr>wall := wall dt + delta\<rparr>"

text \<open>\<open>pd.Timestamp(dt)\<close> of an aware datetime: the instant it denotes.\<close>

definition pd_Timestamp :: "aware_datetime \<Rightarrow> timestamp" where
  "pd_Timestamp dt = wall dt - offset dt"

text \<open>
  \<open>pd.Timestamp(d, tzinfo=zone)\<close> of a naive datetime \<open>d\<close> is \<open>localize off d\<close> for the offset
  \<open>off\<close> that the zone has at the wall-clock reading \<open>d\<close>.
\<close>

definition localize :: "int \<Rightarrow> naive_datetime \<Rightarrow> timestamp" where
  "localize off d = d - off"

definition default_range ::
  "string \<Rightarrow> aware_datetime \<Rightarrow> error + (aware_datetime \<times> aware_datetime)" where
  "default_range default_to today_start =
     (if default_to = ''today'' then
        (let default_start = today_start
         in Inr (default_start, plus_timedelta today_start (days 1)))
      else if default_to = ''tomorrow'' then
        (let default_start = plus_timedelta today_start (days 1)
         in Inr (default_start, plus_timedelta default_start (days 1)))
      else if default_to = ''today-and-tomorrow'' then
        (let default_start = today_start
         in Inr (default_start, plus_timedelta default_start (days 2)))
      else Inl (ValueError (''Invalid default_to value: '' @ default_to
             @ ''. Expected 'today', 'tomorrow' or 'today-and-tomorrow'.'')))"

definition parse_from_and_to_dates ::
  "(string \<rightharpoonup> zone) \<Rightarrow> timestamp \<Rightarrow> naive_datetime option \<Rightarrow> naive_datetime option
     \<Rightarrow> string \<Rightarrow> string \<Rightarrow> error + (timestamp \<times> timestamp)" where
  "parse_from_and_to_dates tzdb clock from_date until_date country_timezone default_to =
     (case pytz_timezone tzdb country_timezone of
        Inl e \<Rightarrow> Inl e
      | Inr z \<Rightarrow>
          (let now = datetime_now z clock;
               today_start = replace_midnight now
           in case default_range default_to today_start of
             Inl e \<Rightarrow> Inl e
           | Inr (default_start, default_end) \<Rightarrow>
               (let start_date = (case from_date of
                                    None \<Rightarrow> pd_Timestamp default_start
                                  | Some d \<Rightarrow> localize (wall_offset z d) d);
                    end_date = (case until_date of
                                  None \<Rightarrow> pd_Timestamp default_end
                                | Some d \<Rightarrow> localize (wall_offset z d) d + hours 24)
                in Inr (start_date, end_date))))"

text \<open>
  The instant of \<open>today_start\<close>: the wall-clock midnight at or before the clock, read with
  the offset that is in force at the clock.
\<close>

definition today_midnight :: "zone \<Rightarrow> timestamp \<Rightarrow> timestamp" where
  "today_midnight z clock = pd_Timestamp (replace_midnight (datetime_now z clock))"

text \<open>
  The three policies the resolver accepts. A zone without daylight saving has one offset.
  \<open>amsterdam\<close> is Europe/Amsterdam around its change to summer time on 30 March 2025 (day
  20177 after the epoch), at 01:00 UTC: one hour ahead of UTC before, two hours from then on;
  wall-clock readings before 03:00 of that day are localized with the winter offset.
\<close>

definition valid_policies :: "string set" where
  "valid_policies = {''today'', ''tomorrow'', ''today-and-tomorrow''}"

definition fixed_zone :: "int \<Rightarrow> zone" where
  "fixed_zone off = \<lparr>utcoffset = (\<lambda>t. off), wall_offset = (\<lambda>d. off)\<rparr>"

definition amsterdam :: zone where
  "amsterdam =
     \<lparr>utcoffset = (\<lambda>t. if t < days 20177 + hours 1 then hours 1 else hours 2),
      wall_offset = (\<lambda>d. if d < days 20177 + hours 3 then hours 1 else hours 2)\<rparr>"

definition utc_only :: "string \<rightharpoonup> zone" where
  "utc_only = [''UTC'' \<mapsto> fixed_zone 0]"

definition europe :: "string \<rightharpoonup> zone" where
  "europe = [''UTC'' \<mapsto> fixed_zone 0, ''Europe/Amsterdam'' \<mapsto> amsterdam]"

section \<open>Adapting the resolution\<close>

text \<open>
  Of the destination sensor only its name (used in log lines, which the model leaves out)
  and its event resolution are read.
\<close>

record sensor =
  sensor_name :: string
  event_resolution :: timedelta

definition minutes :: "int \<Rightarrow> timedelta" where
  "minutes n = n * 60000000000"

definition index :: "series \<Rightarrow> timestamp list" where
  "index s = map fst (samples s)"

definition vals :: "series \<Rightarrow> real option list" where
  "vals s = map snd (samples s)"

subsection \<open>The pandas calls\<close>

text \<open>
  \<open>resample_if_needed\<close> is a composition of pandas calls; each is modelled by what the
  library computes on a datetime index with a fixed-duration frequency.

  \<open>pd.infer_freq\<close> followed by \<open>pd.to_timedelta(to_offset(.))\<close>: the library refuses an index
  of fewer than three timestamps with a \<open>ValueError\<close> of its own, finds no frequency unless
  the index is monotonic and free of duplicates, and otherwise takes the differences of
  consecutive timestamps: a single distinct difference is the frequency. The calendar
  rules it also tries for spacings of whole days (weekly, monthly, business days) are not
  modelled.
\<close>

definition unique_deltas :: "timestamp list \<Rightarrow> timedelta list" where
  "unique_deltas idx = remdups (map2 (\<lambda>a b. b - a) idx (tl idx))"

definition pd_infer_freq :: "timestamp list \<Rightarrow> error + timedelta option" where
  "pd_infer_freq idx =
     (if length idx < 3 then Inl (ValueError ''Need at least 3 dates to infer frequency'')
      else if \<not> (sorted idx \<or> sorted (rev idx)) \<or> \<not> distinct idx then Inr None
      else (case unique_deltas idx of [delta] \<Rightarrow> Inr (Some delta) | _ \<Rightarrow> Inr None))"

text \<open>
  \<open>pd.date_range(start, stop, freq=..., inclusive=...)\<close>: the stamps \<open>start + k * freq\<close> up to
  \<open>stop\<close>; with \<open>inclusive="left"\<close> a last stamp equal to \<open>stop\<close> is dropped, unless \<open>start\<close>
  and \<open>stop\<close> coincide. The number of stamps comes from a floor division by the step, which
  raises for a step of zero.
\<close>

datatype inclusive = Both | Left

definition date_range ::
  "timestamp \<Rightarrow> timestamp \<Rightarrow> timedelta \<Rightarrow> inclusive \<Rightarrow> error + timestamp list" where
  "date_range start stop freq incl =
     (if freq = 0 then Inl ZeroDivisionError
      else
        (let q = (stop - start) div freq;
             stamps = map (\<lambda>k. start + int k * freq) [0..<nat (q + 1)]
         in Inr (if incl = Left \<and> start \<noteq> stop \<and> stamps \<noteq> [] \<and> last stamps = stop
                 then butlast stamps else stamps)))"

text \<open>
  \<open>s.reindex(idx)\<close>: the value of \<open>s\<close> at every label of \<open>idx\<close> that \<open>s\<close> has, NaN at the
  others; refused when the labels of \<open>s\<close> are not unique.
\<close>

definition reindex :: "series \<Rightarrow> timestamp list \<Rightarrow> error + series" where
  "reindex s idx =
     (if \<not> distinct (index s)
      then Inl (ValueError ''cannot reindex on an axis with duplicate labels'')
      else Inr (s\<lparr>samples :=
             map (\<lambda>t. (t, case map_of (samples s) t of None \<Rightarrow> None | Some v \<Rightarrow> v)) idx\<rparr>))"

text \<open>
  \<open>s.pad()\<close>, the forward fill: one pass over the values that carries the last value seen
  and writes it over every NaN; NaN before the first value stays.
\<close>

fun ffill :: "real option \<Rightarrow> real option list \<Rightarrow> real option list" where
  "ffill prev [] = []"
| "ffill prev (None # vs) = prev # ffill prev vs"
| "ffill prev (Some x # vs) = Some x # ffill (Some x) vs"

definition pad :: "series \<Rightarrow> series" where
  "pad s = s\<lparr>samples := zip (index s) (ffill None (vals s))\<rparr>"

text \<open>
  \<open>s.resample(freq).mean()\<close>. The samples are sorted by timestamp. The first bin edge is
  the earliest timestamp moved back to a whole number of periods after the midnight of its
  local day (\<open>origin="start_day"\<close>), the last edge the latest timestamp moved forward to
  the next such point; the edges are a \<open>date_range\<close> between the two. One scan over the
  sorted samples cuts them at the edges (bins closed on the left, labelled by their left
  edge), and each bin yields the mean of its values that are not NaN, NaN if it has none.
\<close>

definition normalize_ts :: "int \<Rightarrow> timestamp \<Rightarrow> timestamp" where
  "normalize_ts off t = (let wall = t + off in wall - wall mod days 1) - off"

definition get_timestamp_range_edges ::
  "int \<Rightarrow> timestamp \<Rightarrow> timestamp \<Rightarrow> timedelta \<Rightarrow> error + (timestamp \<times> timestamp)" where
  "get_timestamp_range_edges off first final freq =
     (if freq = 0 then Inl ZeroDivisionError
      else
        (let origin = normalize_ts off first;
             foffset = (first - origin) mod freq;
             loffset = (final - origin) mod freq;
             fresult = (if foffset > 0 then first - foffset else first);
             lresult = (if loffset > 0 then final + (freq - loffset) else final + freq)
         in Inr (fresult, lresult)))"

fun scan_bins :: "sample list \<Rightarrow> timestamp list \<Rightarrow> sample list list" where
  "scan_bins xs [] = []"
| "scan_bins xs (r_bin # edges) =
     takeWhile (\<lambda>(t, v). t < r_bin) xs # scan_bins (dropWhile (\<lambda>(t, v). t < r_bin) xs) edges"

definition generate_bins :: "sample list \<Rightarrow> timestamp list \<Rightarrow> error + sample list list" where
  "generate_bins xs binner =
     (if xs = [] \<or> binner = [] then Inl (ValueError ''Invalid length for values or for binner'')
      else if fst (hd xs) < hd binner then Inl (ValueError ''Values falls before first bin'')
      else if fst (last xs) > last binner then Inl (ValueError ''Values falls after last bin'')
      else Inr (scan_bins xs (tl binner)))"

definition nanmean :: "real option list \<Rightarrow> real option" where
  "nanmean vs =
     (let known = map the (filter (\<lambda>v. v \<noteq> None) vs)
      in if known = [] then None else Some (sum_list known / real (length known)))"

definition resample_mean :: "timedelta \<Rightarrow> series \<Rightarrow> error + series" where
  "resample_mean freq s =
     (let xs = sort_key fst (samples s) in
      if xs = [] then Inr s
      else
        (case get_timestamp_range_edges (tz s) (fst (hd xs)) (fst (last xs)) freq of
           Inl e \<Rightarrow> Inl e
         | Inr (first, final) \<Rightarrow>
             (case date_range first final freq Both of
                Inl e \<Rightarrow> Inl e
              | Inr binner \<Rightarrow>
                  (case generate_bins xs binner of
                     Inl e \<Rightarrow> Inl e
                   | Inr bins \<Rightarrow>
                       Inr (s\<lparr>samples :=
                              zip (take (length bins) binner)
                                  (map (\<lambda>b. nanmean (map snd b)) bins)\<rparr>)))))"

subsection \<open>The adapter\<close>

definition resample_if_needed :: "series \<Rightarrow> sensor \<Rightarrow> error + series" where
  "resample_if_needed s sensor =
     (case pd_infer_freq (index s) of
        Inl e \<Rightarrow> Inl e
      | Inr None \<Rightarrow>
          Inl (ValueError
            ''Data has no discernible frequency from which to derive an event resolution.'')
      | Inr (Some inferred_resolution) \<Rightarrow>
          (let target_resolution = event_resolution sensor in
           if inferred_resolution = target_resolution then Inr s
           else if inferred_resolution > target_resolution then
             (case index s of
                [] \<Rightarrow> Inl IndexError
              | first # rest \<Rightarrow>
                  (case date_range first (last (index s) + inferred_resolution)
                          target_resolution Left of
                     Inl e \<Rightarrow> Inl e
                   | Inr idx \<Rightarrow>
                       (case reindex s idx of
                          Inl e \<Rightarrow> Inl e
                        | Inr s' \<Rightarrow> Inr (pad s'))))
           else resample_mean target_resolution s))"

subsection \<open>What the adapter is measured against\<close>

text \<open>
  The last value of a list that is not NaN, and with it the most recent known value of a
  series at or before a time \<open>t\<close>: the value of the last sample, in the order of the series,
  that is stamped no later than \<open>t\<close> and is not NaN.
\<close>

definition last_known :: "real option list \<Rightarrow> real option" where
  "last_known vs =
     (let known = filter (\<lambda>v. v \<noteq> None) vs in if known = [] then None else last known)"


subsection \<open>Example data\<close>

definition prices :: "timedelta \<Rightarrow> sensor" where
  "prices resolution = \<lparr>sensor_name = ''Day-ahead prices'', event_resolution = resolution\<rparr>"

definition hourly3 :: series where
  "hourly3 = \<lparr>tz = 0, samples = [(0, Some 1), (hours 1, Some 2), (hours 2, Some 3)]\<rparr>"

definition irregular3 :: series where
  "irregular3 = \<lparr>tz = 0, samples = [(0, Some 1), (hours 1, Some 2), (hours 3, Some 3)]\<rparr>"

definition single :: series where
  "single = \<lparr>tz = 0, samples = [(0, Some 1)]\<rparr>"

section \<open>Properties of the completeness checks\<close>







section \<open>Properties of the date range\<close>


lemma parse_valid:
  assumes "tzdb country_timezone = Some z" and "default_to \<in> valid_policies"
  shows "parse_from_and_to_dates tzdb clock from_date until_date country_timezone default_to =
    Inr (case from_date of
           None \<Rightarrow> today_midnight z clock + (if default_to = ''tomorrow'' then days 1 else 0)
         | Some d \<Rightarrow> localize (wall_offset z d) d,
         case until_date of
           None \<Rightarrow> today_midnight z clock + (if default_to = ''today'' then days 1 else days 2)
         | Some d \<Rightarrow> localize (wall_offset z d) d + hours 24)"
  using assms
  by (auto simp: parse_from_and_to_dates_def pytz_timezone_def default_range_def valid_policies_def
      today_midnight_def pd_Timestamp_def plus_timedelta_def Let_def days_def
      split: option.splits)




text \<open>
  C5. With both dates given, the range starts at \<open>from_date\<close> localized to the zone and
  ends 24 hours after \<open>until_date\<close> localized to the zone, whichever of the three policies
  is passed.
\<close>

theorem explicit_bounds:
  assumes "tzdb country_timezone = Some z" and "default_to \<in> valid_policies"
  shows "parse_from_and_to_dates tzdb clock (Some d1) (Some d2) country_timezone default_to
       = Inr (localize (wall_offset z d1) d1, localize (wall_offset z d2) d2 + hours 24)"
  unfolding parse_valid [where tzdb = tzdb and country_timezone = country_timezone, OF assms]
  by simp

theorem explicit_bounds_witness:
  "parse_from_and_to_dates utc_only 0 (Some (days 20209)) (Some (days 20210)) ''UTC'' ''today''
     = Inr (days 20209, days 20211)
   \<and> parse_from_and_to_dates europe 0 (Some (days 20176)) (Some (days 20177))
        ''Europe/Amsterdam'' ''today''
     = Inr (days 20176 - hours 1, days 20178 - hours 1)"
proof -
  have k: "utc_only ''UTC'' = Some (fixed_zone 0)" by (simp add: utc_only_def)
  have k': "europe ''Europe/Amsterdam'' = Some amsterdam" by (simp add: europe_def)
  have v: "''today'' \<in> valid_policies" by (simp add: valid_policies_def)
  from explicit_bounds [where tzdb = utc_only and country_timezone = "''UTC''", OF k v,
         of 0 "days 20209" "days 20210"]
       explicit_bounds [where tzdb = europe and country_timezone = "''Europe/Amsterdam''",
         OF k' v, of 0 "days 20176" "days 20177"]
  show ?thesis
    by (simp add: localize_def fixed_zone_def amsterdam_def days_def hours_def)
qed

text \<open>
  C8. A policy outside \<open>today\<close>, \<open>tomorrow\<close>, \<open>today-and-tomorrow\<close> makes the resolver
  fail whatever the dates are; for a zone the database knows the failure is the
  \<open>ValueError\<close> whose message lists the three allowed values.
\<close>

theorem invalid_policy_rejected:
  assumes "default_to \<notin> valid_policies"
  shows "(\<exists>e. parse_from_and_to_dates tzdb clock from_date until_date country_timezone default_to
              = Inl e)
       \<and> (tzdb country_timezone \<noteq> None \<longrightarrow>
            parse_from_and_to_dates tzdb clock from_date until_date country_timezone default_to
              = Inl (ValueError (''Invalid default_to value: '' @ default_to
                  @ ''. Expected 'today', 'tomorrow' or 'today-and-tomorrow'.'')))"
  using assms
  by (auto simp: parse_from_and_to_dates_def pytz_timezone_def default_range_def valid_policies_def
      Let_def split: option.splits)

theorem invalid_policy_rejected_witness:
  "parse_from_and_to_dates utc_only 0 None None ''UTC'' ''yesterday''
     = Inl (ValueError ''Invalid default_to value: yesterday. Expected 'today', 'tomorrow' or 'today-and-tomorrow'.'')"
proof -
  have v: "''yesterday'' \<notin> valid_policies" by (simp add: valid_policies_def)
  have k: "utc_only ''UTC'' \<noteq> None" by (simp add: utc_only_def)
  from invalid_policy_rejected [OF v, of utc_only 0 None None "''UTC''"] k
  show ?thesis by simp
qed




section \<open>Properties of the resolution adapter\<close>

text \<open>
  An index for which a frequency \<open>r\<close> is inferred has at least three timestamps, no
  duplicates, and consecutive timestamps exactly \<open>r\<close> apart.
\<close>

lemma unique_deltas_single:
  assumes "unique_deltas idx = [r]" and "Suc i < length idx"
  shows "idx ! Suc i = idx ! i + r"
proof -
  let ?ds = "map2 (\<lambda>a b. b - a) idx (tl idx)"
  have len: "i < length ?ds" using assms(2) by simp
  have "set ?ds = {r}"
    using assms(1) unfolding unique_deltas_def by (metis list.simps(15) empty_set set_remdups)
  then have "?ds ! i = r"
    using len nth_mem by blast
  moreover have "?ds ! i = idx ! Suc i - idx ! i"
    using len assms(2) by (simp add: nth_tl)
  ultimately show ?thesis by simp
qed


lemma irregular_no_freq:
  assumes "3 \<le> length idx" and "Suc i < length idx" and "Suc j < length idx"
    and "idx ! Suc i - idx ! i \<noteq> idx ! Suc j - idx ! j"
  shows "pd_infer_freq idx = Inr None"
proof -
  have "\<not> (\<exists>r. unique_deltas idx = [r])"
  proof
    assume "\<exists>r. unique_deltas idx = [r]"
    then obtain r where r: "unique_deltas idx = [r]" ..
    from unique_deltas_single [OF r assms(2)] unique_deltas_single [OF r assms(3)] assms(4)
    show False by simp
  qed
  then show ?thesis
    using assms(1) by (auto simp: pd_infer_freq_def split: list.splits)
qed


lemma hourly3_freq: "pd_infer_freq (index hourly3) = Inr (Some (hours 1))"
  by (simp add: pd_infer_freq_def index_def hourly3_def unique_deltas_def hours_def)

text \<open>
  C7. A series whose inferred frequency equals the sensor's event resolution is returned
  as it is.
\<close>

theorem adapt_same_resolution:
  assumes "pd_infer_freq (index s) = Inr (Some (event_resolution sensor))"
  shows "resample_if_needed s sensor = Inr s"
  using assms by (simp add: resample_if_needed_def)

theorem adapt_same_resolution_witness:
  "resample_if_needed hourly3 (prices (hours 1)) = Inr hourly3"
proof -
  have "pd_infer_freq (index hourly3) = Inr (Some (event_resolution (prices (hours 1))))"
    using hourly3_freq by (simp add: prices_def)
  then show ?thesis by (rule adapt_same_resolution)
qed

text \<open>
  C6. A series for which no frequency is inferred makes the adapter fail with a
  \<open>ValueError\<close>. When the inference returns nothing, as it does for three or more
  timestamps with two different spacings, this is the error saying that the data has no
  discernible frequency from which to derive an event resolution; for fewer than three
  timestamps the inference itself raises the \<open>ValueError\<close>, worded by the library.
\<close>

theorem unresolvable_frequency:
  "((\<forall>r. pd_infer_freq (index s) \<noteq> Inr (Some r)) \<longrightarrow>
        (\<exists>msg. resample_if_needed s sensor = Inl (ValueError msg)))
   \<and> (pd_infer_freq (index s) = Inr None \<longrightarrow>
        resample_if_needed s sensor = Inl (ValueError
          ''Data has no discernible frequency from which to derive an event resolution.''))
   \<and> (3 \<le> length (index s)
        \<and> (\<exists>i j. Suc i < length (index s) \<and> Suc j < length (index s)
              \<and> index s ! Suc i - index s ! i \<noteq> index s ! Suc j - index s ! j) \<longrightarrow>
        resample_if_needed s sensor = Inl (ValueError
          ''Data has no discernible frequency from which to derive an event resolution.''))
   \<and> (length (index s) < 3 \<longrightarrow>
        resample_if_needed s sensor =
          Inl (ValueError ''Need at least 3 dates to infer frequency''))"
proof -
  have short: "resample_if_needed s sensor =
      Inl (ValueError ''Need at least 3 dates to infer frequency'')"
    if "length (index s) < 3"
    using that by (simp add: resample_if_needed_def pd_infer_freq_def)
  have none: "resample_if_needed s sensor = Inl (ValueError
      ''Data has no discernible frequency from which to derive an event resolution.'')"
    if "pd_infer_freq (index s) = Inr None"
    using that by (simp add: resample_if_needed_def)
  have long: "pd_infer_freq (index s) = Inr None"
    if "\<forall>r. pd_infer_freq (index s) \<noteq> Inr (Some r)" and "\<not> length (index s) < 3"
    using that by (auto simp: pd_infer_freq_def split: list.splits)
  have irregular: "pd_infer_freq (index s) = Inr None"
    if "3 \<le> length (index s)"
      and "\<exists>i j. Suc i < length (index s) \<and> Suc j < length (index s)
              \<and> index s ! Suc i - index s ! i \<noteq> index s ! Suc j - index s ! j"
    using that irregular_no_freq by blast
  have "\<exists>msg. resample_if_needed s sensor = Inl (ValueError msg)"
    if "\<forall>r. pd_infer_freq (index s) \<noteq> Inr (Some r)"
  proof (cases "length (index s) < 3")
    case True
    then show ?thesis using short by blast
  next
    case False
    with that have "pd_infer_freq (index s) = Inr None" by (rule long)
    then show ?thesis using none by blast
  qed
  then show ?thesis
    using short none irregular by blast
qed

theorem unresolvable_frequency_witness:
  "resample_if_needed irregular3 (prices (minutes 15)) =
     Inl (ValueError ''Data has no discernible frequency from which to derive an event resolution.'')
   \<and> resample_if_needed single (prices (minutes 15)) =
     Inl (ValueError ''Need at least 3 dates to infer frequency'')"
proof -
  have a: "3 \<le> length (index irregular3)"
    and b: "Suc 0 < length (index irregular3)" "Suc 1 < length (index irregular3)"
    and c: "index irregular3 ! Suc 0 - index irregular3 ! 0
              \<noteq> index irregular3 ! Suc 1 - index irregular3 ! 1"
    by (simp_all add: index_def irregular3_def hours_def)
  have d: "length (index single) < 3" by (simp add: index_def single_def)
  from a b c have "3 \<le> length (index irregular3)
        \<and> (\<exists>i j. Suc i < length (index irregular3) \<and> Suc j < length (index irregular3)
              \<and> index irregular3 ! Suc i - index irregular3 ! i
                  \<noteq> index irregular3 ! Suc j - index irregular3 ! j)"
    by blast
  with unresolvable_frequency [of irregular3 "prices (minutes 15)"]
       unresolvable_frequency [of single "prices (minutes 15)"] d
  show ?thesis by blast
qed

subsection \<open>Upsampling\<close>

text \<open>
  The forward fill writes, at every position, the last known value of the prefix that ends
  there. On the grid of a resolution that divides the inferred one, the reindexed values
  are the values of the series, each followed by NaN up to the next one.
\<close>

lemma last_known_Nil [simp]: "last_known [] = None"
  by (simp add: last_known_def)

lemma last_known_snoc [simp]:
  "last_known (vs @ [v]) = (case v of None \<Rightarrow> last_known vs | Some x \<Rightarrow> Some x)"
  by (cases v) (simp_all add: last_known_def)

lemma last_known_Cons_None [simp]: "last_known (None # vs) = last_known vs"
  by (simp add: last_known_def)

lemma last_known_Cons_Some [simp]:
  "last_known (Some x # vs) = (case last_known vs of None \<Rightarrow> Some x | Some y \<Rightarrow> Some y)"
proof (induction vs rule: rev_induct)
  case Nil
  show ?case by (simp add: last_known_def)
next
  case (snoc v vs)
  have "last_known (Some x # vs @ [v]) = last_known ((Some x # vs) @ [v])" by simp
  also have "\<dots> = (case v of None \<Rightarrow> last_known (Some x # vs) | Some y \<Rightarrow> Some y)"
    by (rule last_known_snoc)
  finally show ?case
    using snoc by (cases v) simp_all
qed

lemma length_ffill [simp]: "length (ffill prev vs) = length vs"
  by (induction prev vs rule: ffill.induct) simp_all










subsection \<open>Downsampling\<close>



lemma length_scan_bins [simp]: "length (scan_bins xs es) = length es"
  by (induction es arbitrary: xs) simp_all













end
